theory Spec2Isabelle
  imports Main
begin

section \<open>Python values, dictionaries and exceptions\<close>

text \<open>
  The model-configuration dict of \<^verbatim>\<open>rllib/core/models/catalog.py\<close> is a dynamically
  typed Python dict. Its values are modelled by the datatype \<open>val\<close>; the truth value Python
  gives to a value in \<^verbatim>\<open>if x\<close>, \<^verbatim>\<open>x or y\<close> and \<^verbatim>\<open>not x\<close> is \<open>truthy\<close>.
\<close>

datatype val = VNone | VBool bool | VInt int | VStr string | VList "val list"

fun truthy :: "val \<Rightarrow> bool" where
  "truthy VNone = False"
| "truthy (VBool b) = b"
| "truthy (VInt i) = (i \<noteq> 0)"
| "truthy (VStr s) = (s \<noteq> [])"
| "truthy (VList xs) = (xs \<noteq> [])"

type_synonym dict = "string \<rightharpoonup> val"

text \<open>
  Exceptions are values. \<open>NotImplementedError\<close> carries its message, \<open>None\<close> for the bare
  \<^verbatim>\<open>raise NotImplementedError\<close> of the attention branch; \<open>UnsupportedSpaceException\<close>
  carries the shape its message is formatted from.
\<close>

datatype error =
    KeyError string
  | IndexError
  | TypeError
  | AttributeError string
  | ValueError string
  | UnsupportedSpaceException "int list"
  | NotImplementedError "string option"

text \<open>\<^verbatim>\<open>d[k]\<close>: raises KeyError when the key is missing.\<close>

definition getitem :: "(string \<rightharpoonup> 'v) \<Rightarrow> string \<Rightarrow> error + 'v" where
  "getitem d k = (case d k of None \<Rightarrow> Inl (KeyError k) | Some v \<Rightarrow> Inr v)"

text \<open>\<^verbatim>\<open>d.get(k)\<close>: \<^verbatim>\<open>None\<close> when the key is missing.\<close>

definition dict_get :: "dict \<Rightarrow> string \<Rightarrow> val" where
  "dict_get d k = (case d k of None \<Rightarrow> VNone | Some v \<Rightarrow> v)"

text \<open>\<^verbatim>\<open>x[-1]\<close>: the last element of a sequence; IndexError when it is empty, TypeError when
  the value is not subscriptable.\<close>

fun last_item :: "val \<Rightarrow> error + val" where
  "last_item (VList xs) = (if xs = [] then Inl IndexError else Inr (last xs))"
| "last_item (VStr s) = (if s = [] then Inl IndexError else Inr (VStr [last s]))"
| "last_item _ = Inl TypeError"

text \<open>\<^verbatim>\<open>x[:-1]\<close>: the sequence without its last element; never an IndexError.\<close>

fun but_last :: "val \<Rightarrow> error + val" where
  "but_last (VList xs) = Inr (VList (butlast xs))"
| "but_last (VStr s) = Inr (VStr (butlast s))"
| "but_last _ = Inl TypeError"

section \<open>Spaces\<close>

text \<open>
  The gymnasium spaces the resolvers dispatch on with \<^verbatim>\<open>isinstance\<close>. A \<open>Box\<close> carries
  its shape and the one-character code of its numpy dtype (\<^verbatim>\<open>dtype.char\<close>); a space of
  any other class is \<open>OtherSpace\<close> with its printed form.
\<close>

datatype space =
    Box "int list" char
  | Discrete int
  | MultiDiscrete "int list"
  | Tuple "space list"
  | Dict "(string \<times> space) list"
  | Simplex "int list"
  | OtherSpace string

text \<open>Modelled from the spec: \<^verbatim>\<open>np.typecodes["AllInteger"]\<close>, numpy's table of the dtype
  codes of the integer element types, which the spec calls an integer-typed box.\<close>

definition AllInteger :: string where
  "AllInteger = ''bBhHiIlLqQpP''"

section \<open>Action distributions\<close>

datatype dist_cls =
    TorchDeterministic | TfDeterministic
  | TorchDiagGaussian | TfDiagGaussian
  | TorchCategorical | TfCategorical

definition distribution_dicts :: "string \<rightharpoonup> (string \<rightharpoonup> dist_cls)" where
  "distribution_dicts =
     [''deterministic'' \<mapsto> [''torch'' \<mapsto> TorchDeterministic, ''tf'' \<mapsto> TfDeterministic],
      ''gaussian'' \<mapsto> [''torch'' \<mapsto> TorchDiagGaussian, ''tf'' \<mapsto> TfDiagGaussian],
      ''categorical'' \<mapsto> [''torch'' \<mapsto> TorchCategorical, ''tf'' \<mapsto> TfCategorical]]"

text \<open>
  \<^verbatim>\<open>get_action_dist_cls_dict(cls, action_space, deterministic=False)\<close>. The flag is
  \<^verbatim>\<open>Optional[bool]\<close>; \<^verbatim>\<open>None\<close> counts as false in \<^verbatim>\<open>if deterministic\<close>. The equations
  follow the order of the \<^verbatim>\<open>isinstance\<close> chain.
\<close>

fun get_action_dist_cls_dict :: "space \<Rightarrow> bool option \<Rightarrow> error + (string \<rightharpoonup> dist_cls)" where
  "get_action_dist_cls_dict (Box shape c) deterministic =
     (if c \<in> set AllInteger then
        Inl (ValueError
          ''Box(..., `int`) action spaces are not supported. Use MultiDiscrete  or Box(..., `float`).'')
      else if length shape > 1 then Inl (UnsupportedSpaceException shape)
      else if deterministic = Some True then getitem distribution_dicts ''deterministic''
      else getitem distribution_dicts ''gaussian'')"
| "get_action_dist_cls_dict (Discrete n) deterministic =
     getitem distribution_dicts ''categorical''"
| "get_action_dist_cls_dict (Tuple xs) deterministic =
     Inl (NotImplementedError (Some ''Tuple/Dict spaces not yet supported.''))"
| "get_action_dist_cls_dict (Dict xs) deterministic =
     Inl (NotImplementedError (Some ''Tuple/Dict spaces not yet supported.''))"
| "get_action_dist_cls_dict (Simplex shape) deterministic =
     Inl (NotImplementedError (Some ''Simplex action space not yet supported.''))"
| "get_action_dist_cls_dict (MultiDiscrete nvec) deterministic =
     Inl (NotImplementedError (Some ''MultiDiscrete spaces not yet supported.''))"
| "get_action_dist_cls_dict (OtherSpace r) deterministic =
     Inl (NotImplementedError (Some (''Unsupported action space: `'' @ r @ ''`'')))"

section \<open>Encoder configurations\<close>

text \<open>
  The configuration classes \<^verbatim>\<open>MLPEncoderConfig\<close>, \<^verbatim>\<open>CNNEncoderConfig\<close> and
  \<^verbatim>\<open>LSTMEncoderConfig\<close> are dataclasses of \<^verbatim>\<open>ray.rllib.core.models.configs\<close>; the
  resolver only constructs them with keyword arguments, which are the fields below.
  The callable \<^verbatim>\<open>get_tokenizer_config=cls.get_tokenizer_config\<close> stored in an LSTM
  configuration is a reference to the classmethod, \<open>Catalog_get_tokenizer_config\<close>.
\<close>

datatype tokenizer_ref = Catalog_get_tokenizer_config

datatype encoder_config =
    MLPEncoderConfig
      (input_dim: int) (hidden_layer_dims: val) (hidden_layer_activation: val)
      (output_dim: val) (output_activation: val)
  | CNNEncoderConfig
      (input_dims: "int list") (filter_specifiers: val) (filter_layer_activation: val)
      (output_activation: val) (output_dim: val)
  | LSTMEncoderConfig
      (hidden_dim: val) (batch_first: bool) (num_layers: int)
      (output_dim: val) (output_activation: val)
      (lstm_observation_space: space) (lstm_action_space: "space option")
      (view_requirements_dict: val) (tokenizer: tokenizer_ref)

section \<open>The store of dict objects\<close>

text \<open>
  Python dicts are mutable objects passed by reference. The store is the list of all
  dict objects created so far; a reference is an index into it. \<^verbatim>\<open>{**a, **b}\<close> creates
  a new object (\<open>new_dict\<close>) holding \<open>a ++ b\<close>, and \<^verbatim>\<open>d[k] = v\<close> updates the object
  in place (\<open>setitem\<close>).
\<close>

type_synonym addr = nat
type_synonym heap = "dict list"

definition new_dict :: "heap \<Rightarrow> dict \<Rightarrow> heap \<times> addr" where
  "new_dict h d = (h @ [d], length h)"

definition setitem :: "heap \<Rightarrow> addr \<Rightarrow> string \<Rightarrow> val \<Rightarrow> heap" where
  "setitem h a k v = h[a := (h ! a)(k \<mapsto> v)]"

section \<open>The encoder resolver\<close>

text \<open>
  \<^verbatim>\<open>get_encoder_config(cls, observation_space, model_config_dict, action_space=None,
  view_requirements=None)\<close>. The table \<^verbatim>\<open>MODEL_DEFAULTS\<close> (of \<^verbatim>\<open>ray.rllib.models\<close>) and
  the heuristic \<^verbatim>\<open>get_filter_config\<close> (of \<^verbatim>\<open>ray.rllib.models.utils\<close>, which may raise)
  are not among the sources and are parameters. The function returns the store together
  with the configuration or the exception raised. The first statement rebinds the name
  \<^verbatim>\<open>model_config_dict\<close> to the freshly merged dict; the argument, the caller's dict, is
  \<open>caller_dict\<close> here. The body is cut at its branches: \<open>flag_branch\<close> is the
  \<^verbatim>\<open>if use_lstm / elif use_attention / else\<close> chain, \<open>space_branch\<close> the dispatch on the
  observation space, \<open>lstm_branch\<close>, \<open>mlp_branch\<close> and \<open>cnn_branch\<close> the constructor calls,
  and \<open>derive_conv_filters\<close> the write-back of derived filters.
\<close>

definition lstm_branch ::
  "heap \<Rightarrow> addr \<Rightarrow> val \<Rightarrow> space \<Rightarrow> space option \<Rightarrow> val \<Rightarrow> heap \<times> (error + encoder_config)" where
  "lstm_branch h model_config_dict output_act observation_space action_space view_requirements =
     (case getitem (h ! model_config_dict) ''lstm_cell_size'' of
        Inl e \<Rightarrow> (h, Inl e)
      | Inr hidden \<Rightarrow>
       (case getitem (h ! model_config_dict) ''_time_major'' of
          Inl e \<Rightarrow> (h, Inl e)
        | Inr time_major \<Rightarrow>
         (case getitem (h ! model_config_dict) ''lstm_cell_size'' of
            Inl e \<Rightarrow> (h, Inl e)
          | Inr out \<Rightarrow>
              (h, Inr (LSTMEncoderConfig hidden (\<not> truthy time_major) 1 out output_act
                         observation_space action_space view_requirements
                         Catalog_get_tokenizer_config)))))"

definition mlp_branch ::
  "heap \<Rightarrow> addr \<Rightarrow> val \<Rightarrow> val \<Rightarrow> val \<Rightarrow> int list \<Rightarrow> heap \<times> (error + encoder_config)" where
  "mlp_branch h model_config_dict activation output_act encoder_latent_dim shape =
     (case getitem (h ! model_config_dict) ''encoder_latent_dim'' of
        Inl e \<Rightarrow> (h, Inl e)
      | Inr latent_set \<Rightarrow>
       (case getitem (h ! model_config_dict) ''fcnet_hiddens'' of
          Inl e \<Rightarrow> (h, Inl e)
        | Inr hiddens \<Rightarrow>
         (case (if truthy latent_set then Inr hiddens else but_last hiddens) of
            Inl e \<Rightarrow> (h, Inl e)
          | Inr dims \<Rightarrow>
              (h, Inr (MLPEncoderConfig (shape ! 0) dims activation
                         encoder_latent_dim output_act)))))"

definition derive_conv_filters ::
  "(int list \<Rightarrow> error + val) \<Rightarrow> heap \<Rightarrow> addr \<Rightarrow> int list \<Rightarrow> error + heap" where
  "derive_conv_filters get_filter_config h model_config_dict shape =
     (if \<not> truthy (dict_get (h ! model_config_dict) ''conv_filters'') then
        (case get_filter_config shape of
           Inl e \<Rightarrow> Inl e
         | Inr filters \<Rightarrow> Inr (setitem h model_config_dict ''conv_filters'' filters))
      else Inr h)"

definition cnn_branch ::
  "(int list \<Rightarrow> error + val) \<Rightarrow> heap \<Rightarrow> addr \<Rightarrow> val \<Rightarrow> val \<Rightarrow> val \<Rightarrow> int list
     \<Rightarrow> heap \<times> (error + encoder_config)" where
  "cnn_branch get_filter_config h model_config_dict activation output_act encoder_latent_dim
       shape =
     (case derive_conv_filters get_filter_config h model_config_dict shape of
        Inl e \<Rightarrow> (h, Inl e)
      | Inr h' \<Rightarrow>
       (case getitem (h' ! model_config_dict) ''conv_filters'' of
          Inl e \<Rightarrow> (h', Inl e)
        | Inr filters \<Rightarrow>
            (h', Inr (CNNEncoderConfig shape filters activation output_act
                        encoder_latent_dim))))"

definition space_branch ::
  "(int list \<Rightarrow> error + val) \<Rightarrow> heap \<Rightarrow> addr \<Rightarrow> val \<Rightarrow> val \<Rightarrow> val \<Rightarrow> space
     \<Rightarrow> heap \<times> (error + encoder_config)" where
  "space_branch get_filter_config h model_config_dict activation output_act encoder_latent_dim
       observation_space =
     (case observation_space of
        Box shape c \<Rightarrow>
          (if length shape = 1 then
             mlp_branch h model_config_dict activation output_act encoder_latent_dim shape
           else if length shape = 3 then
             cnn_branch get_filter_config h model_config_dict activation output_act
               encoder_latent_dim shape
           else
             (h, Inl (NotImplementedError (Some ''No default config for complex spaces yet!''))))
      | _ \<Rightarrow>
          (h, Inl (NotImplementedError (Some ''No default config for complex spaces yet!''))))"

definition flag_branch ::
  "(int list \<Rightarrow> error + val) \<Rightarrow> heap \<Rightarrow> addr \<Rightarrow> val \<Rightarrow> val \<Rightarrow> val \<Rightarrow> space
     \<Rightarrow> space option \<Rightarrow> val \<Rightarrow> heap \<times> (error + encoder_config)" where
  "flag_branch get_filter_config h model_config_dict activation output_act encoder_latent_dim
       observation_space action_space view_requirements =
     (case getitem (h ! model_config_dict) ''use_lstm'' of
        Inl e \<Rightarrow> (h, Inl e)
      | Inr use_lstm \<Rightarrow>
         (if truthy use_lstm then
            lstm_branch h model_config_dict output_act observation_space action_space
              view_requirements
          else
            (case getitem (h ! model_config_dict) ''use_attention'' of
               Inl e \<Rightarrow> (h, Inl e)
             | Inr use_attention \<Rightarrow>
                 (if truthy use_attention then (h, Inl (NotImplementedError None))
                  else space_branch get_filter_config h model_config_dict activation
                         output_act encoder_latent_dim observation_space))))"

definition get_encoder_config ::
  "dict \<Rightarrow> (int list \<Rightarrow> error + val) \<Rightarrow> heap \<Rightarrow> space \<Rightarrow> addr \<Rightarrow> space option \<Rightarrow> val
     \<Rightarrow> heap \<times> (error + encoder_config)" where
  "get_encoder_config MODEL_DEFAULTS get_filter_config h0 observation_space caller_dict
       action_space view_requirements =
    (let h = fst (new_dict h0 (MODEL_DEFAULTS ++ (h0 ! caller_dict)));
         model_config_dict = snd (new_dict h0 (MODEL_DEFAULTS ++ (h0 ! caller_dict)))
     in
     (case getitem (h ! model_config_dict) ''fcnet_activation'' of
        Inl e \<Rightarrow> (h, Inl e)
      | Inr activation \<Rightarrow>
       (case getitem (h ! model_config_dict) ''fcnet_activation'' of
          Inl e \<Rightarrow> (h, Inl e)
        | Inr output_act \<Rightarrow>
         (case getitem (h ! model_config_dict) ''fcnet_hiddens'' of
            Inl e \<Rightarrow> (h, Inl e)
          | Inr fcnet_hiddens \<Rightarrow>
           (case getitem (h ! model_config_dict) ''encoder_latent_dim'' of
              Inl e \<Rightarrow> (h, Inl e)
            | Inr latent \<Rightarrow>
             (case (if truthy latent then Inr latent else last_item fcnet_hiddens) of
                Inl e \<Rightarrow> (h, Inl e)
              | Inr encoder_latent_dim \<Rightarrow>
                  flag_branch get_filter_config h model_config_dict activation output_act
                    encoder_latent_dim observation_space action_space view_requirements))))))"

text \<open>
  \<^verbatim>\<open>get_tokenizer_config(cls, space, model_config_dict)\<close>: a new dict with the two flags
  overridden, passed to \<open>get_encoder_config\<close> with the remaining arguments at their
  defaults (\<^verbatim>\<open>None\<close>).
\<close>

definition get_tokenizer_config ::
  "dict \<Rightarrow> (int list \<Rightarrow> error + val) \<Rightarrow> heap \<Rightarrow> space \<Rightarrow> addr
     \<Rightarrow> heap \<times> (error + encoder_config)" where
  "get_tokenizer_config MODEL_DEFAULTS get_filter_config h space model_config_dict =
    (let forced = (h ! model_config_dict)
                     ++ [''use_lstm'' \<mapsto> VBool False, ''use_attention'' \<mapsto> VBool False]
     in get_encoder_config MODEL_DEFAULTS get_filter_config (fst (new_dict h forced)) space
          (snd (new_dict h forced)) None VNone)"

text \<open>Calling the callable an LSTM configuration stores.\<close>

fun call_tokenizer ::
  "tokenizer_ref \<Rightarrow> dict \<Rightarrow> (int list \<Rightarrow> error + val) \<Rightarrow> heap \<Rightarrow> space \<Rightarrow> addr
     \<Rightarrow> heap \<times> (error + encoder_config)" where
  "call_tokenizer Catalog_get_tokenizer_config = get_tokenizer_config"

section \<open>The Catalog\<close>

text \<open>
  A Catalog object is its attribute table: an attribute is \<open>None\<close> until \<^verbatim>\<open>__init__\<close>
  has assigned it. \<open>self_model_config_dict\<close> is a reference into the store.
\<close>

record catalog =
  self_observation_space :: "space option"
  self_action_space :: "space option"
  self_model_config_dict :: "addr option"
  self_view_requirements :: "val option"
  self_encoder_config :: "encoder_config option"
  self_action_dist_cls_dict :: "(string \<rightharpoonup> dist_cls) option"
  self_latent_dim :: "val option"

definition new_object :: catalog where
  "new_object =
     \<lparr>self_observation_space = None, self_action_space = None, self_model_config_dict = None,
      self_view_requirements = None, self_encoder_config = None,
      self_action_dist_cls_dict = None, self_latent_dim = None\<rparr>"

text \<open>
  \<^verbatim>\<open>Catalog.__init__\<close>, the assignments in source order. An exception leaves the
  constructor without handing an object to the caller: the result is then \<open>Inl\<close>.
\<close>

definition Catalog_init ::
  "dict \<Rightarrow> (int list \<Rightarrow> error + val) \<Rightarrow> heap \<Rightarrow> space \<Rightarrow> space \<Rightarrow> addr \<Rightarrow> val
     \<Rightarrow> heap \<times> (error + catalog)" where
  "Catalog_init MODEL_DEFAULTS get_filter_config h0 observation_space action_space
       model_config_dict view_requirements =
    (let self1 = new_object\<lparr>self_observation_space := Some observation_space\<rparr>;
         self2 = self1\<lparr>self_action_space := Some action_space\<rparr>;
         h1 = fst (new_dict h0 (MODEL_DEFAULTS ++ (h0 ! model_config_dict)));
         merged = snd (new_dict h0 (MODEL_DEFAULTS ++ (h0 ! model_config_dict)));
         self3 = self2\<lparr>self_model_config_dict := Some merged\<rparr>;
         self4 = self3\<lparr>self_view_requirements := Some view_requirements\<rparr>;
         resolved = get_encoder_config MODEL_DEFAULTS get_filter_config h1 observation_space
                      model_config_dict (Some action_space) view_requirements;
         h2 = fst resolved
     in
     (case snd resolved of
        Inl e \<Rightarrow> (h2, Inl e)
      | Inr config \<Rightarrow>
         (let self5 = self4\<lparr>self_encoder_config := Some config\<rparr> in
          (case get_action_dist_cls_dict action_space (Some False) of
             Inl e \<Rightarrow> (h2, Inl e)
           | Inr dists \<Rightarrow>
              (let self6 = self5\<lparr>self_action_dist_cls_dict := Some dists\<rparr> in
               (case self_encoder_config self6 of
                  None \<Rightarrow> (h2, Inl (AttributeError ''encoder_config''))
                | Some stored \<Rightarrow>
                    (h2, Inr (self6\<lparr>self_latent_dim := Some (output_dim stored)\<rparr>))))))))"

text \<open>
  \<^verbatim>\<open>get_action_dist_cls(self, framework)\<close>, returning the store and the object next to
  the result.
\<close>

definition get_action_dist_cls ::
  "heap \<Rightarrow> catalog \<Rightarrow> string \<Rightarrow> (heap \<times> catalog) \<times> (error + dist_cls)" where
  "get_action_dist_cls h self framework =
     ((h, self),
      (case self_action_dist_cls_dict self of
         None \<Rightarrow> Inl (AttributeError ''action_dist_cls_dict'')
       | Some d \<Rightarrow> getitem d framework))"

section \<open>A concrete defaults table and filter heuristic\<close>

text \<open>
  Modelled from the spec: \<^verbatim>\<open>MODEL_DEFAULTS\<close> is not among the sources. The table below
  holds the keys the spec names as recognised, with RLlib's default values; the optional
  keys \<open>encoder_latent_dim\<close> and \<open>conv_filters\<close> default to \<^verbatim>\<open>None\<close>. It is used at
  concrete inputs only; every general theorem is stated for an arbitrary table.
\<close>

definition defaults_table :: dict where
  "defaults_table =
     [''fcnet_hiddens'' \<mapsto> VList [VInt 256, VInt 256],
      ''fcnet_activation'' \<mapsto> VStr ''tanh'',
      ''encoder_latent_dim'' \<mapsto> VNone,
      ''conv_filters'' \<mapsto> VNone,
      ''use_lstm'' \<mapsto> VBool False,
      ''use_attention'' \<mapsto> VBool False,
      ''lstm_cell_size'' \<mapsto> VInt 256,
      ''_time_major'' \<mapsto> VBool False]"

text \<open>
  Modelled from the spec: \<^verbatim>\<open>get_filter_config\<close> is not among the sources; the spec calls
  it the external filter-config heuristic. The function below gives the filter list for
  the shape \<open>(84, 84, 4)\<close> and raises for every other shape. It is used at concrete inputs
  only.
\<close>

definition filters_84x84 :: val where
  "filters_84x84 =
     VList [VList [VInt 16, VList [VInt 8, VInt 8], VInt 4],
            VList [VInt 32, VList [VInt 4, VInt 4], VInt 2],
            VList [VInt 256, VList [VInt 11, VInt 11], VInt 1]]"

definition filter_heuristic :: "int list \<Rightarrow> error + val" where
  "filter_heuristic shape =
     (if shape = [84, 84, 4] then Inr filters_84x84
      else Inl (ValueError ''No default configuration for obs shape''))"

section \<open>The action-distribution resolver\<close>

lemma distribution_dicts_gaussian:
  "getitem distribution_dicts ''gaussian'' =
     Inr [''torch'' \<mapsto> TorchDiagGaussian, ''tf'' \<mapsto> TfDiagGaussian]"
  by (simp add: getitem_def distribution_dicts_def)

lemma distribution_dicts_deterministic:
  "getitem distribution_dicts ''deterministic'' =
     Inr [''torch'' \<mapsto> TorchDeterministic, ''tf'' \<mapsto> TfDeterministic]"
  by (simp add: getitem_def distribution_dicts_def)

lemma distribution_dicts_categorical:
  "getitem distribution_dicts ''categorical'' =
     Inr [''torch'' \<mapsto> TorchCategorical, ''tf'' \<mapsto> TfCategorical]"
  by (simp add: getitem_def distribution_dicts_def)

text \<open>
  C6. For every Discrete action space, whatever its size \<open>n\<close>, and for every value of the
  deterministic flag (true, false or \<^verbatim>\<open>None\<close>), the resolver returns the categorical
  family mapping: torch to TorchCategorical and tf to TfCategorical. The flag has no
  effect on the result.
\<close>

theorem discrete_is_categorical:
  "get_action_dist_cls_dict (Discrete n) deterministic =
     Inr [''torch'' \<mapsto> TorchCategorical, ''tf'' \<mapsto> TfCategorical]"
  by (simp add: distribution_dicts_categorical)

section \<open>The store across a call of the encoder resolver\<close>

text \<open>
  Every branch leaves the store as it is, but for the object the resolver itself created:
  only \<open>derive_conv_filters\<close> writes, and it writes to that object.
\<close>

lemma fst_lstm_branch: "fst (lstm_branch h m oa obs action vr) = h"
  by (simp add: lstm_branch_def split: sum.splits)

lemma fst_mlp_branch: "fst (mlp_branch h m a oa l shape) = h"
  by (simp add: mlp_branch_def split: sum.splits)

lemma derive_conv_filters_store:
  "derive_conv_filters gfc h m shape = Inr h' \<Longrightarrow> \<exists>d. h' = h[m := d]"
  unfolding derive_conv_filters_def setitem_def
  by (cases "truthy (dict_get (h ! m) ''conv_filters'')"; cases "gfc shape")
     (auto intro: exI[of _ "h ! m"])

lemma fst_cnn_branch: "\<exists>d. fst (cnn_branch gfc h m a oa l shape) = h[m := d]"
proof (cases "derive_conv_filters gfc h m shape")
  case (Inl e)
  then have "fst (cnn_branch gfc h m a oa l shape) = h[m := h ! m]"
    by (simp add: cnn_branch_def)
  then show ?thesis by blast
next
  case (Inr h')
  then obtain d where "h' = h[m := d]" using derive_conv_filters_store by blast
  moreover have "fst (cnn_branch gfc h m a oa l shape) = h'"
    using Inr by (simp add: cnn_branch_def split: sum.splits)
  ultimately show ?thesis by blast
qed

lemma fst_space_branch: "\<exists>d. fst (space_branch gfc h m a oa l obs) = h[m := d]"
proof -
  have same: "\<exists>d. h = h[m := d]" by (rule exI[of _ "h ! m"]) simp
  show ?thesis
  proof (cases obs)
    case (Box shape c)
    then show ?thesis
      using same fst_cnn_branch[of gfc h m a oa l shape]
      by (simp add: space_branch_def fst_mlp_branch)
  qed (use same in \<open>simp_all add: space_branch_def\<close>)
qed

lemma fst_flag_branch: "\<exists>d. fst (flag_branch gfc h m a oa l obs action vr) = h[m := d]"
proof -
  have same: "\<exists>d. h = h[m := d]" by (rule exI[of _ "h ! m"]) simp
  show ?thesis
    using same fst_space_branch[of gfc h m a oa l obs]
    by (simp add: flag_branch_def fst_lstm_branch split: sum.splits)
qed

lemma store_extended: "\<exists>d. fst (get_encoder_config D gfc h obs a action vr) = h @ [d]"
proof -
  let ?h = "h @ [D ++ (h ! a)]"
  have same: "\<exists>d. ?h = h @ [d]" by blast
  have upd: "\<And>d. ?h[length h := d] = h @ [d]" by simp
  have flag: "\<And>x y z. \<exists>d. fst (flag_branch gfc ?h (length h) x y z obs action vr) = h @ [d]"
    using fst_flag_branch[of gfc ?h "length h"] upd by metis
  show ?thesis
    using same flag
    by (simp add: get_encoder_config_def new_dict_def Let_def split: sum.splits)
qed

section \<open>The branches of the encoder resolver\<close>

lemma resolver_reads:
  assumes "(D ++ (h ! a)) ''fcnet_activation'' = Some act"
    and "(D ++ (h ! a)) ''fcnet_hiddens'' = Some hiddens"
    and "(D ++ (h ! a)) ''encoder_latent_dim'' = Some latent"
    and "(if truthy latent then Inr latent else last_item hiddens) = Inr width"
  shows "get_encoder_config D gfc h obs a action vr =
           flag_branch gfc (h @ [D ++ (h ! a)]) (length h) act act width obs action vr"
  using assms by (simp add: get_encoder_config_def new_dict_def getitem_def Let_def)

lemma flag_branch_lstm:
  assumes "(h ! m) ''use_lstm'' = Some ul" and "truthy ul"
  shows "flag_branch gfc h m act oa width obs action vr = lstm_branch h m oa obs action vr"
  using assms by (simp add: flag_branch_def getitem_def)

lemma flag_branch_attention:
  assumes "(h ! m) ''use_lstm'' = Some ul" and "\<not> truthy ul"
    and "(h ! m) ''use_attention'' = Some ua" and "truthy ua"
  shows "flag_branch gfc h m act oa width obs action vr = (h, Inl (NotImplementedError None))"
  using assms by (simp add: flag_branch_def getitem_def)

lemma flag_branch_plain:
  assumes "(h ! m) ''use_lstm'' = Some ul" and "\<not> truthy ul"
    and "(h ! m) ''use_attention'' = Some ua" and "\<not> truthy ua"
  shows "flag_branch gfc h m act oa width obs action vr = space_branch gfc h m act oa width obs"
  using assms by (simp add: flag_branch_def getitem_def)

lemma lstm_branch_result:
  assumes "(h ! m) ''lstm_cell_size'' = Some cell" and "(h ! m) ''_time_major'' = Some tm"
  shows "lstm_branch h m oa obs action vr =
           (h, Inr (LSTMEncoderConfig cell (\<not> truthy tm) 1 cell oa obs action vr
                      Catalog_get_tokenizer_config))"
  using assms by (simp add: lstm_branch_def getitem_def)

lemma mlp_branch_result:
  assumes "(h ! m) ''encoder_latent_dim'' = Some latent"
    and "(h ! m) ''fcnet_hiddens'' = Some (VList hs)"
  shows "mlp_branch h m act oa width shape =
           (h, Inr (MLPEncoderConfig (shape ! 0)
                      (if truthy latent then VList hs else VList (butlast hs)) act width oa))"
  using assms by (simp add: mlp_branch_def getitem_def)

lemma cnn_branch_derived:
  assumes "m < length h" and "\<not> truthy (dict_get (h ! m) ''conv_filters'')"
    and "gfc shape = Inr filters"
  shows "cnn_branch gfc h m act oa width shape =
           (h[m := (h ! m)(''conv_filters'' \<mapsto> filters)],
            Inr (CNNEncoderConfig shape filters act oa width))"
  using assms by (simp add: cnn_branch_def derive_conv_filters_def setitem_def getitem_def)

lemma space_branch_mlp:
  "length shape = 1 \<Longrightarrow>
   space_branch gfc h m act oa width (Box shape c) = mlp_branch h m act oa width shape"
  by (simp add: space_branch_def)

lemma space_branch_cnn:
  "length shape = 3 \<Longrightarrow>
   space_branch gfc h m act oa width (Box shape c) = cnn_branch gfc h m act oa width shape"
  by (simp add: space_branch_def)

lemma space_branch_complex:
  assumes "\<forall>shape c. obs = Box shape c \<longrightarrow> length shape \<noteq> 1 \<and> length shape \<noteq> 3"
  shows "space_branch gfc h m act oa width obs =
           (h, Inl (NotImplementedError (Some ''No default config for complex spaces yet!'')))"
  using assms by (cases obs) (simp_all add: space_branch_def)

section \<open>The MLP path\<close>

text \<open>
  C1. For a 1-D Box observation space, with use_lstm and use_attention false in the merged
  configuration, the resolver returns an MLP configuration. Its output width is
  encoder_latent_dim when that key holds a positive integer, else the last entry of
  fcnet_hiddens; its hidden widths are fcnet_hiddens verbatim in the first case, else
  fcnet_hiddens without its last entry. The key encoder_latent_dim is an optional
  non-negative integer here, and fcnet_hiddens a list that has a last entry when the key
  gives no width.
\<close>

theorem mlp_latent_dim_rule:
  assumes "(MODEL_DEFAULTS ++ (h ! a)) ''fcnet_activation'' = Some act"
    and "(MODEL_DEFAULTS ++ (h ! a)) ''fcnet_hiddens'' = Some (VList hs)"
    and "(MODEL_DEFAULTS ++ (h ! a)) ''encoder_latent_dim'' = Some latent"
    and "(MODEL_DEFAULTS ++ (h ! a)) ''use_lstm'' = Some ul" and "\<not> truthy ul"
    and "(MODEL_DEFAULTS ++ (h ! a)) ''use_attention'' = Some ua" and "\<not> truthy ua"
    and "length shape = 1"
    and "latent = VNone \<or> (\<exists>n. 0 \<le> n \<and> latent = VInt n)"
    and "(\<exists>n. 0 < n \<and> latent = VInt n) \<or> hs \<noteq> []"
  shows "snd (get_encoder_config MODEL_DEFAULTS get_filter_config h (Box shape c) a
                action_space view_requirements) =
     Inr (MLPEncoderConfig (shape ! 0)
            (if \<exists>n. 0 < n \<and> latent = VInt n then VList hs else VList (butlast hs))
            act
            (if \<exists>n. 0 < n \<and> latent = VInt n then latent else last hs)
            act)"
proof -
  let ?set = "\<exists>n. 0 < n \<and> latent = VInt n"
  let ?H = "h @ [MODEL_DEFAULTS ++ (h ! a)]"
  have t: "truthy latent = ?set"
    using assms(9) by auto
  have width: "(if truthy latent then Inr latent else last_item (VList hs)) =
                 Inr (if ?set then latent else last hs)"
    using assms(10) t by auto
  have "get_encoder_config MODEL_DEFAULTS get_filter_config h (Box shape c) a
          action_space view_requirements =
        flag_branch get_filter_config ?H (length h) act act (if ?set then latent else last hs)
          (Box shape c) action_space view_requirements"
    by (rule resolver_reads[OF assms(1) assms(2) assms(3) width])
  also have "\<dots> = space_branch get_filter_config ?H (length h) act act
                     (if ?set then latent else last hs) (Box shape c)"
    by (rule flag_branch_plain[where ul = ul and ua = ua]) (simp_all add: assms)
  also have "\<dots> = mlp_branch ?H (length h) act act (if ?set then latent else last hs) shape"
    by (rule space_branch_mlp[OF assms(8)])
  also have "\<dots> = (?H, Inr (MLPEncoderConfig (shape ! 0)
                      (if truthy latent then VList hs else VList (butlast hs)) act
                      (if ?set then latent else last hs) act))"
    by (rule mlp_branch_result) (simp_all add: assms)
  finally show ?thesis by (simp add: t)
qed

theorem mlp_latent_dim_rule_witness:
  "snd (get_encoder_config defaults_table filter_heuristic
          [[''fcnet_hiddens'' \<mapsto> VList [VInt 64, VInt 32]]] (Box [8] CHR ''f'') 0 None VNone) =
     Inr (MLPEncoderConfig 8 (VList [VInt 64]) (VStr ''tanh'') (VInt 32) (VStr ''tanh''))
   \<and> snd (get_encoder_config defaults_table filter_heuristic
          [[''fcnet_hiddens'' \<mapsto> VList [VInt 64, VInt 32], ''encoder_latent_dim'' \<mapsto> VInt 16]]
          (Box [8] CHR ''f'') 0 None VNone) =
     Inr (MLPEncoderConfig 8 (VList [VInt 64, VInt 32]) (VStr ''tanh'') (VInt 16) (VStr ''tanh''))"
proof
  show "snd (get_encoder_config defaults_table filter_heuristic
          [[''fcnet_hiddens'' \<mapsto> VList [VInt 64, VInt 32]]] (Box [8] CHR ''f'') 0 None VNone) =
     Inr (MLPEncoderConfig 8 (VList [VInt 64]) (VStr ''tanh'') (VInt 32) (VStr ''tanh''))"
    using mlp_latent_dim_rule[of defaults_table
        "[[''fcnet_hiddens'' \<mapsto> VList [VInt 64, VInt 32]]]" 0 "VStr ''tanh''"
        "[VInt 64, VInt 32]" VNone "VBool False" "VBool False" "[8]" filter_heuristic
        "CHR ''f''" None VNone]
    by (simp add: defaults_table_def)
  show "snd (get_encoder_config defaults_table filter_heuristic
          [[''fcnet_hiddens'' \<mapsto> VList [VInt 64, VInt 32], ''encoder_latent_dim'' \<mapsto> VInt 16]]
          (Box [8] CHR ''f'') 0 None VNone) =
     Inr (MLPEncoderConfig 8 (VList [VInt 64, VInt 32]) (VStr ''tanh'') (VInt 16) (VStr ''tanh''))"
    using mlp_latent_dim_rule[of defaults_table
        "[[''fcnet_hiddens'' \<mapsto> VList [VInt 64, VInt 32], ''encoder_latent_dim'' \<mapsto> VInt 16]]"
        0 "VStr ''tanh''"
        "[VInt 64, VInt 32]" "VInt 16" "VBool False" "VBool False" "[8]" filter_heuristic
        "CHR ''f''" None VNone]
    by (simp add: defaults_table_def)
qed

section \<open>The tokenizer never recurs\<close>

lemma mlp_branch_kind:
  "snd (mlp_branch h m act oa width shape) \<noteq> Inl (NotImplementedError None) \<and>
   (\<forall>cfg. snd (mlp_branch h m act oa width shape) = Inr cfg \<longrightarrow> \<not> is_LSTMEncoderConfig cfg)"
proof (cases "(h ! m) ''encoder_latent_dim''")
  case None
  then show ?thesis by (simp add: mlp_branch_def getitem_def)
next
  case latent: (Some latent)
  show ?thesis
  proof (cases "(h ! m) ''fcnet_hiddens''")
    case None
    then show ?thesis using latent by (simp add: mlp_branch_def getitem_def)
  next
    case (Some hiddens)
    then show ?thesis using latent
      by (cases hiddens) (auto simp add: mlp_branch_def getitem_def)
  qed
qed

lemma cnn_branch_kind:
  assumes "\<forall>shape. gfc shape \<noteq> Inl (NotImplementedError None)"
  shows "snd (cnn_branch gfc h m act oa width shape) \<noteq> Inl (NotImplementedError None) \<and>
   (\<forall>cfg. snd (cnn_branch gfc h m act oa width shape) = Inr cfg \<longrightarrow> \<not> is_LSTMEncoderConfig cfg)"
proof (cases "derive_conv_filters gfc h m shape")
  case (Inl e)
  then have "e \<noteq> NotImplementedError None"
    using assms by (auto simp add: derive_conv_filters_def split: if_splits sum.splits)
  then show ?thesis using Inl by (simp add: cnn_branch_def)
next
  case (Inr h')
  then show ?thesis
    by (cases "(h' ! m) ''conv_filters''") (simp_all add: cnn_branch_def getitem_def)
qed

lemma space_branch_kind:
  assumes "\<forall>shape. gfc shape \<noteq> Inl (NotImplementedError None)"
  shows "snd (space_branch gfc h m act oa width obs) \<noteq> Inl (NotImplementedError None) \<and>
   (\<forall>cfg. snd (space_branch gfc h m act oa width obs) = Inr cfg \<longrightarrow> \<not> is_LSTMEncoderConfig cfg)"
proof (cases obs)
  case (Box shape c)
  then show ?thesis
    using mlp_branch_kind[of h m act oa width shape]
      cnn_branch_kind[OF assms, of h m act oa width shape]
    by (simp add: space_branch_def)
qed (simp_all add: space_branch_def)

lemma last_item_kind: "last_item v \<noteq> Inl (NotImplementedError None)"
  by (cases v) simp_all

lemma getitem_Inr_iff: "getitem d k = Inr v \<longleftrightarrow> d k = Some v"
  by (simp add: getitem_def split: option.splits)

lemma getitem_Inl: "getitem d k = Inl e \<Longrightarrow> e = KeyError k"
  by (simp add: getitem_def split: option.splits)

lemma resolver_forced_kind:
  assumes gfc: "\<forall>shape. gfc shape \<noteq> Inl (NotImplementedError None)"
    and "(D ++ (h ! a)) ''use_lstm'' = Some (VBool False)"
    and "(D ++ (h ! a)) ''use_attention'' = Some (VBool False)"
  shows "snd (get_encoder_config D gfc h obs a action vr) \<noteq> Inl (NotImplementedError None) \<and>
   (\<forall>cfg. snd (get_encoder_config D gfc h obs a action vr) = Inr cfg
      \<longrightarrow> \<not> is_LSTMEncoderConfig cfg)"
proof -
  let ?H = "h @ [D ++ (h ! a)]"
  let ?cfg = "D ++ (h ! a)"
  have plain: "\<And>act oa width. flag_branch gfc ?H (length h) act oa width obs action vr =
                 space_branch gfc ?H (length h) act oa width obs"
    by (rule flag_branch_plain[where ul = "VBool False" and ua = "VBool False"])
       (simp_all add: assms)
  show ?thesis
  proof (cases "getitem ?cfg ''fcnet_activation''")
    case (Inl e)
    then show ?thesis using getitem_Inl[OF Inl]
      by (simp add: get_encoder_config_def new_dict_def Let_def)
  next
    case act: (Inr act)
    show ?thesis
    proof (cases "getitem ?cfg ''fcnet_hiddens''")
      case (Inl e)
      then show ?thesis using act getitem_Inl[OF Inl]
        by (simp add: get_encoder_config_def new_dict_def Let_def)
    next
      case hiddens: (Inr hiddens)
      show ?thesis
      proof (cases "getitem ?cfg ''encoder_latent_dim''")
        case (Inl e)
        then show ?thesis using act hiddens getitem_Inl[OF Inl]
          by (simp add: get_encoder_config_def new_dict_def Let_def)
      next
        case latent: (Inr latent)
        show ?thesis
        proof (cases "if truthy latent then Inr latent else last_item hiddens")
          case (Inl e)
          then have "e \<noteq> NotImplementedError None"
            using last_item_kind[of hiddens] by (auto split: if_splits)
          then show ?thesis using act hiddens latent Inl
            by (simp add: get_encoder_config_def new_dict_def Let_def)
        next
          case (Inr width)
          have "get_encoder_config D gfc h obs a action vr =
                  space_branch gfc ?H (length h) act act width obs"
            using resolver_reads[OF act[unfolded getitem_Inr_iff]
                hiddens[unfolded getitem_Inr_iff] latent[unfolded getitem_Inr_iff] Inr] plain
            by simp
          then show ?thesis using space_branch_kind[OF gfc] by simp
        qed
      qed
    qed
  qed
qed

lemma tokenizer_kind:
  assumes gfc: "\<forall>shape. gfc shape \<noteq> Inl (NotImplementedError None)"
  shows "snd (get_tokenizer_config D gfc h space b) \<noteq> Inl (NotImplementedError None) \<and>
   (\<forall>cfg. snd (get_tokenizer_config D gfc h space b) = Inr cfg
      \<longrightarrow> \<not> is_LSTMEncoderConfig cfg)"
  unfolding get_tokenizer_config_def Let_def new_dict_def fst_conv snd_conv
  by (rule resolver_forced_kind[OF gfc]) simp_all

section \<open>The LSTM path\<close>

text \<open>
  C3. When use_lstm is true in the merged configuration, the resolver returns an LSTM
  configuration whose hidden width and output dimension are both lstm_cell_size, whose
  batch-first flag is the negation of _time_major, with one layer, output activation
  fcnet_activation, and the classmethod get_tokenizer_config as its tokenizer callable;
  the observation space is not inspected. Calling that tokenizer callable, on any store,
  any space and any configuration dict (also one with use_lstm and use_attention true),
  never yields an LSTM configuration and never the bare NotImplementedError of the
  attention branch: the inner call goes at most one level deep. The resolver evaluates
  the latent-width expression before it branches, so that expression must evaluate; the
  filter heuristic is assumed not to raise a bare NotImplementedError of its own.
\<close>

theorem lstm_config_and_tokenizer:
  assumes "(MODEL_DEFAULTS ++ (h ! a)) ''fcnet_activation'' = Some act"
    and "(MODEL_DEFAULTS ++ (h ! a)) ''fcnet_hiddens'' = Some hiddens"
    and "(MODEL_DEFAULTS ++ (h ! a)) ''encoder_latent_dim'' = Some latent"
    and "truthy latent \<or> (\<exists>hs. hiddens = VList hs \<and> hs \<noteq> [])"
    and "(MODEL_DEFAULTS ++ (h ! a)) ''use_lstm'' = Some ul" and "truthy ul"
    and "(MODEL_DEFAULTS ++ (h ! a)) ''lstm_cell_size'' = Some cell"
    and "(MODEL_DEFAULTS ++ (h ! a)) ''_time_major'' = Some tm"
    and "\<forall>shape. get_filter_config shape \<noteq> Inl (NotImplementedError None)"
  shows "snd (get_encoder_config MODEL_DEFAULTS get_filter_config h observation_space a
                action_space view_requirements) =
           Inr (LSTMEncoderConfig cell (\<not> truthy tm) 1 cell act observation_space
                  action_space view_requirements Catalog_get_tokenizer_config)
         \<and> (\<forall>store space d.
               snd (call_tokenizer Catalog_get_tokenizer_config MODEL_DEFAULTS
                      get_filter_config store space d) \<noteq> Inl (NotImplementedError None)
               \<and> (\<forall>cfg. snd (call_tokenizer Catalog_get_tokenizer_config MODEL_DEFAULTS
                               get_filter_config store space d) = Inr cfg
                     \<longrightarrow> \<not> is_LSTMEncoderConfig cfg))"
proof
  let ?H = "h @ [MODEL_DEFAULTS ++ (h ! a)]"
  have "\<exists>width. (if truthy latent then Inr latent else last_item hiddens) = Inr width"
    using assms(4) by (cases "truthy latent") auto
  then obtain width where
    width: "(if truthy latent then Inr latent else last_item hiddens) = Inr width" ..
  have "get_encoder_config MODEL_DEFAULTS get_filter_config h observation_space a
          action_space view_requirements =
        flag_branch get_filter_config ?H (length h) act act width observation_space
          action_space view_requirements"
    by (rule resolver_reads[OF assms(1) assms(2) assms(3) width])
  also have "\<dots> = lstm_branch ?H (length h) act observation_space action_space
                     view_requirements"
    by (rule flag_branch_lstm[where ul = ul]) (simp_all add: assms)
  also have "\<dots> = (?H, Inr (LSTMEncoderConfig cell (\<not> truthy tm) 1 cell act
                      observation_space action_space view_requirements
                      Catalog_get_tokenizer_config))"
    by (rule lstm_branch_result) (simp_all add: assms)
  finally show "snd (get_encoder_config MODEL_DEFAULTS get_filter_config h observation_space a
                action_space view_requirements) =
           Inr (LSTMEncoderConfig cell (\<not> truthy tm) 1 cell act observation_space
                  action_space view_requirements Catalog_get_tokenizer_config)"
    by simp
next
  show "\<forall>store space d.
               snd (call_tokenizer Catalog_get_tokenizer_config MODEL_DEFAULTS
                      get_filter_config store space d) \<noteq> Inl (NotImplementedError None)
               \<and> (\<forall>cfg. snd (call_tokenizer Catalog_get_tokenizer_config MODEL_DEFAULTS
                               get_filter_config store space d) = Inr cfg
                     \<longrightarrow> \<not> is_LSTMEncoderConfig cfg)"
    using tokenizer_kind[OF assms(9)] by simp
qed

theorem lstm_config_and_tokenizer_witness:
  "snd (get_encoder_config defaults_table filter_heuristic
          [[''use_lstm'' \<mapsto> VBool True, ''use_attention'' \<mapsto> VBool True]]
          (Box [8] CHR ''f'') 0 (Some (Discrete 6)) VNone) =
     Inr (LSTMEncoderConfig (VInt 256) True 1 (VInt 256) (VStr ''tanh'') (Box [8] CHR ''f'')
            (Some (Discrete 6)) VNone Catalog_get_tokenizer_config)
   \<and> snd (call_tokenizer Catalog_get_tokenizer_config defaults_table filter_heuristic
          [[''use_lstm'' \<mapsto> VBool True, ''use_attention'' \<mapsto> VBool True]]
          (Box [8] CHR ''f'') 0) \<noteq> Inl (NotImplementedError None)
   \<and> snd (call_tokenizer Catalog_get_tokenizer_config defaults_table filter_heuristic
          [[''use_lstm'' \<mapsto> VBool True, ''use_attention'' \<mapsto> VBool True]]
          (Box [8] CHR ''f'') 0) =
     Inr (MLPEncoderConfig 8 (VList [VInt 256]) (VStr ''tanh'') (VInt 256) (VStr ''tanh''))"
proof -
  have heuristic: "\<forall>shape. filter_heuristic shape \<noteq> Inl (NotImplementedError None)"
    by (simp add: filter_heuristic_def)
  have main: "snd (get_encoder_config defaults_table filter_heuristic
          [[''use_lstm'' \<mapsto> VBool True, ''use_attention'' \<mapsto> VBool True]]
          (Box [8] CHR ''f'') 0 (Some (Discrete 6)) VNone) =
     Inr (LSTMEncoderConfig (VInt 256) True 1 (VInt 256) (VStr ''tanh'') (Box [8] CHR ''f'')
            (Some (Discrete 6)) VNone Catalog_get_tokenizer_config)
   \<and> snd (call_tokenizer Catalog_get_tokenizer_config defaults_table filter_heuristic
          [[''use_lstm'' \<mapsto> VBool True, ''use_attention'' \<mapsto> VBool True]]
          (Box [8] CHR ''f'') 0) \<noteq> Inl (NotImplementedError None)"
    using lstm_config_and_tokenizer[where MODEL_DEFAULTS = defaults_table
        and h = "[[''use_lstm'' \<mapsto> VBool True, ''use_attention'' \<mapsto> VBool True]]"
        and a = 0 and act = "VStr ''tanh''" and hiddens = "VList [VInt 256, VInt 256]"
        and latent = VNone and ul = "VBool True" and cell = "VInt 256" and tm = "VBool False"
        and get_filter_config = filter_heuristic and observation_space = "Box [8] CHR ''f''"
        and action_space = "Some (Discrete 6)" and view_requirements = VNone] heuristic
    by (simp add: defaults_table_def)
  have inner: "snd (call_tokenizer Catalog_get_tokenizer_config defaults_table filter_heuristic
          [[''use_lstm'' \<mapsto> VBool True, ''use_attention'' \<mapsto> VBool True]]
          (Box [8] CHR ''f'') 0) =
     Inr (MLPEncoderConfig 8 (VList [VInt 256]) (VStr ''tanh'') (VInt 256) (VStr ''tanh''))"
    by (simp add: get_tokenizer_config_def get_encoder_config_def flag_branch_def
          space_branch_def mlp_branch_def new_dict_def getitem_def defaults_table_def Let_def)
  show ?thesis using main inner by simp
qed

section \<open>Box action spaces and the Catalog constructor\<close>

lemma dist_dict_dom:
  "get_action_dist_cls_dict space flag = Inr m \<Longrightarrow> dom m = {''torch'', ''tf''}"
  by (cases space)
     (auto simp add: distribution_dicts_gaussian distribution_dicts_deterministic
        distribution_dicts_categorical split: if_splits)

text \<open>
  C5. For a float Box action space with one shape dimension the resolver returns the
  deterministic family mapping when the flag is true and the diagonal-Gaussian family
  mapping otherwise; and whenever the resolver succeeds, for any action space and flag,
  the keys of the returned mapping are exactly the two backend tags torch and tf.
\<close>

theorem box_action_families:
  assumes "c \<notin> set AllInteger" and "length shape = 1"
  shows "get_action_dist_cls_dict (Box shape c) deterministic =
           Inr (if deterministic = Some True
                then [''torch'' \<mapsto> TorchDeterministic, ''tf'' \<mapsto> TfDeterministic]
                else [''torch'' \<mapsto> TorchDiagGaussian, ''tf'' \<mapsto> TfDiagGaussian])
         \<and> (\<forall>space flag m. get_action_dist_cls_dict space flag = Inr m
               \<longrightarrow> dom m = {''torch'', ''tf''})"
  using assms
  by (simp add: distribution_dicts_gaussian distribution_dicts_deterministic dist_dict_dom)

theorem box_action_families_witness:
  "get_action_dist_cls_dict (Box [4] CHR ''f'') (Some False) =
     Inr [''torch'' \<mapsto> TorchDiagGaussian, ''tf'' \<mapsto> TfDiagGaussian]
   \<and> get_action_dist_cls_dict (Box [4] CHR ''f'') (Some True) =
     Inr [''torch'' \<mapsto> TorchDeterministic, ''tf'' \<mapsto> TfDeterministic]
   \<and> dom [''torch'' \<mapsto> TorchDiagGaussian, ''tf'' \<mapsto> TfDiagGaussian] = {''torch'', ''tf''}"
proof -
  have float: "CHR ''f'' \<notin> set AllInteger" by (simp add: AllInteger_def)
  have one: "length [4::int] = 1" by simp
  have g: "get_action_dist_cls_dict (Box [4] CHR ''f'') (Some False) =
     Inr [''torch'' \<mapsto> TorchDiagGaussian, ''tf'' \<mapsto> TfDiagGaussian]"
    using box_action_families[OF float one, of "Some False"] by simp
  have d: "get_action_dist_cls_dict (Box [4] CHR ''f'') (Some True) =
     Inr [''torch'' \<mapsto> TorchDeterministic, ''tf'' \<mapsto> TfDeterministic]"
    using box_action_families[OF float one, of "Some True"] by simp
  have k: "dom [''torch'' \<mapsto> TorchDiagGaussian, ''tf'' \<mapsto> TfDiagGaussian] = {''torch'', ''tf''}"
    using box_action_families[OF float one, of "Some False"] g by blast
  show ?thesis using g d k by simp
qed

lemma Catalog_init_result:
  "snd (Catalog_init D gfc h obs action a vr) =
     (case snd (get_encoder_config D gfc (h @ [D ++ (h ! a)]) obs a (Some action) vr) of
        Inl e \<Rightarrow> Inl e
      | Inr config \<Rightarrow>
          (case get_action_dist_cls_dict action (Some False) of
             Inl e \<Rightarrow> Inl e
           | Inr dists \<Rightarrow>
               Inr \<lparr>self_observation_space = Some obs, self_action_space = Some action,
                    self_model_config_dict = Some (length h),
                    self_view_requirements = Some vr, self_encoder_config = Some config,
                    self_action_dist_cls_dict = Some dists,
                    self_latent_dim = Some (output_dim config)\<rparr>))"
  by (simp add: Catalog_init_def Let_def new_dict_def new_object_def split: sum.splits)

lemma Catalog_init_store:
  "fst (Catalog_init D gfc h obs action a vr) =
     fst (get_encoder_config D gfc (h @ [D ++ (h ! a)]) obs a (Some action) vr)"
  by (simp add: Catalog_init_def Let_def new_dict_def split: sum.splits)

section \<open>The constructed Catalog\<close>

text \<open>
  C7. For every Catalog whose construction succeeds, latent_dim equals the output_dim of
  the stored encoder_config, and the attributes encoder_config, latent_dim,
  model_config_dict and action_dist_cls_dict (and the stored spaces and view
  requirements) have all been assigned: no attribute of the returned object is missing.
\<close>

theorem catalog_latent_dim_consistent:
  assumes "snd (Catalog_init MODEL_DEFAULTS get_filter_config h observation_space action_space
                  model_config_dict view_requirements) = Inr self"
  shows "\<exists>config dists merged.
           self_encoder_config self = Some config
         \<and> self_latent_dim self = Some (output_dim config)
         \<and> self_model_config_dict self = Some merged
         \<and> self_action_dist_cls_dict self = Some dists
         \<and> self_observation_space self = Some observation_space
         \<and> self_action_space self = Some action_space
         \<and> self_view_requirements self = Some view_requirements"
  using assms unfolding Catalog_init_result
  by (auto split: sum.splits)

theorem catalog_latent_dim_consistent_witness:
  "snd (Catalog_init defaults_table filter_heuristic [Map.empty] (Box [8] CHR ''f'')
          (Discrete 6) 0 VNone) =
     Inr \<lparr>self_observation_space = Some (Box [8] CHR ''f''),
          self_action_space = Some (Discrete 6),
          self_model_config_dict = Some 1,
          self_view_requirements = Some VNone,
          self_encoder_config = Some (MLPEncoderConfig 8 (VList [VInt 256]) (VStr ''tanh'')
                                        (VInt 256) (VStr ''tanh'')),
          self_action_dist_cls_dict =
            Some [''torch'' \<mapsto> TorchCategorical, ''tf'' \<mapsto> TfCategorical],
          self_latent_dim = Some (VInt 256)\<rparr>
   \<and> (\<exists>config. self_encoder_config
         \<lparr>self_observation_space = Some (Box [8] CHR ''f''),
          self_action_space = Some (Discrete 6),
          self_model_config_dict = Some 1,
          self_view_requirements = Some VNone,
          self_encoder_config = Some (MLPEncoderConfig 8 (VList [VInt 256]) (VStr ''tanh'')
                                        (VInt 256) (VStr ''tanh'')),
          self_action_dist_cls_dict =
            Some [''torch'' \<mapsto> TorchCategorical, ''tf'' \<mapsto> TfCategorical],
          self_latent_dim = Some (VInt 256)\<rparr> = Some config
        \<and> Some (VInt 256) = Some (output_dim config))"
proof -
  have built: "snd (Catalog_init defaults_table filter_heuristic [Map.empty] (Box [8] CHR ''f'')
          (Discrete 6) 0 VNone) =
     Inr \<lparr>self_observation_space = Some (Box [8] CHR ''f''),
          self_action_space = Some (Discrete 6),
          self_model_config_dict = Some 1,
          self_view_requirements = Some VNone,
          self_encoder_config = Some (MLPEncoderConfig 8 (VList [VInt 256]) (VStr ''tanh'')
                                        (VInt 256) (VStr ''tanh'')),
          self_action_dist_cls_dict =
            Some [''torch'' \<mapsto> TorchCategorical, ''tf'' \<mapsto> TfCategorical],
          self_latent_dim = Some (VInt 256)\<rparr>"
    by (simp add: Catalog_init_def get_encoder_config_def flag_branch_def space_branch_def
          mlp_branch_def new_dict_def new_object_def getitem_def defaults_table_def
          distribution_dicts_def Let_def)
  show ?thesis using built catalog_latent_dim_consistent[OF built] by simp
qed

text \<open>
  C8. On a constructed Catalog, get_action_dist_cls is a lookup in the stored mapping: it
  leaves the store and the object as they are, returns the stored constructor for the
  tags torch and tf, and raises KeyError for exactly the tags outside that set.
\<close>

theorem get_action_dist_cls_lookup:
  assumes "snd (Catalog_init MODEL_DEFAULTS get_filter_config h observation_space action_space
                  model_config_dict view_requirements) = Inr self"
  shows "fst (get_action_dist_cls store self framework) = (store, self)
       \<and> (\<exists>dists. self_action_dist_cls_dict self = Some dists
            \<and> dom dists = {''torch'', ''tf''}
            \<and> snd (get_action_dist_cls store self framework) =
                (case dists framework of
                   Some cls \<Rightarrow> Inr cls
                 | None \<Rightarrow> Inl (KeyError framework)))
       \<and> ((\<exists>e. snd (get_action_dist_cls store self framework) = Inl e)
            \<longleftrightarrow> framework \<notin> {''torch'', ''tf''})
       \<and> (framework \<notin> {''torch'', ''tf''}
            \<longrightarrow> snd (get_action_dist_cls store self framework) = Inl (KeyError framework))"
proof -
  obtain config dists where
    dists: "get_action_dist_cls_dict action_space (Some False) = Inr dists"
    and stored: "self_action_dist_cls_dict self = Some dists"
    using assms unfolding Catalog_init_result by (auto split: sum.splits)
  have keys: "dom dists = {''torch'', ''tf''}"
    by (rule dist_dict_dom[OF dists])
  have lookup: "snd (get_action_dist_cls store self framework) =
                  (case dists framework of
                     Some cls \<Rightarrow> Inr cls
                   | None \<Rightarrow> Inl (KeyError framework))"
    by (simp add: get_action_dist_cls_def stored getitem_def split: option.splits)
  have missing: "dists framework = None \<longleftrightarrow> framework \<notin> {''torch'', ''tf''}"
    using keys by (metis domIff)
  show ?thesis
    using stored keys lookup missing
    by (auto simp add: get_action_dist_cls_def split: option.splits)
qed

theorem get_action_dist_cls_lookup_witness:
  "snd (get_action_dist_cls [] 
          \<lparr>self_observation_space = Some (Box [8] CHR ''f''),
           self_action_space = Some (Discrete 6),
           self_model_config_dict = Some 1,
           self_view_requirements = Some VNone,
           self_encoder_config = Some (MLPEncoderConfig 8 (VList [VInt 256]) (VStr ''tanh'')
                                         (VInt 256) (VStr ''tanh'')),
           self_action_dist_cls_dict =
             Some [''torch'' \<mapsto> TorchCategorical, ''tf'' \<mapsto> TfCategorical],
           self_latent_dim = Some (VInt 256)\<rparr> ''torch'') = Inr TorchCategorical
   \<and> snd (get_action_dist_cls []
          \<lparr>self_observation_space = Some (Box [8] CHR ''f''),
           self_action_space = Some (Discrete 6),
           self_model_config_dict = Some 1,
           self_view_requirements = Some VNone,
           self_encoder_config = Some (MLPEncoderConfig 8 (VList [VInt 256]) (VStr ''tanh'')
                                         (VInt 256) (VStr ''tanh'')),
           self_action_dist_cls_dict =
             Some [''torch'' \<mapsto> TorchCategorical, ''tf'' \<mapsto> TfCategorical],
           self_latent_dim = Some (VInt 256)\<rparr> ''jax'') = Inl (KeyError ''jax'')"
proof -
  let ?self = "\<lparr>self_observation_space = Some (Box [8] CHR ''f''),
           self_action_space = Some (Discrete 6),
           self_model_config_dict = Some 1,
           self_view_requirements = Some VNone,
           self_encoder_config = Some (MLPEncoderConfig 8 (VList [VInt 256]) (VStr ''tanh'')
                                         (VInt 256) (VStr ''tanh'')),
           self_action_dist_cls_dict =
             Some [''torch'' \<mapsto> TorchCategorical, ''tf'' \<mapsto> TfCategorical],
           self_latent_dim = Some (VInt 256)\<rparr>"
  have built: "snd (Catalog_init defaults_table filter_heuristic [Map.empty] (Box [8] CHR ''f'')
          (Discrete 6) 0 VNone) = Inr ?self"
    by (simp add: Catalog_init_def get_encoder_config_def flag_branch_def space_branch_def
          mlp_branch_def new_dict_def new_object_def getitem_def defaults_table_def
          distribution_dicts_def Let_def)
  have jax: "snd (get_action_dist_cls [] ?self ''jax'') = Inl (KeyError ''jax'')"
    using get_action_dist_cls_lookup[OF built, of "[]" "''jax''"] by simp
  have torch: "snd (get_action_dist_cls [] ?self ''torch'') = Inr TorchCategorical"
    using get_action_dist_cls_lookup[OF built, of "[]" "''torch''"] by simp
  show ?thesis using jax torch by simp
qed

section \<open>The caller's dict and the defaults merge\<close>

text \<open>
  C9. For every observation space, store and caller-supplied configuration dict, the
  resolver leaves the caller's dict unchanged, on success and on failure alike: the
  store after the call is the store before it followed by one new dict, the resolver's
  own merged copy, which alone receives the derived conv_filters.
\<close>

theorem caller_dict_unchanged:
  assumes "a < length h"
  shows "fst (get_encoder_config MODEL_DEFAULTS get_filter_config h observation_space a
                action_space view_requirements) ! a = h ! a
       \<and> take (length h) (fst (get_encoder_config MODEL_DEFAULTS get_filter_config h
                                  observation_space a action_space view_requirements)) = h
       \<and> length (fst (get_encoder_config MODEL_DEFAULTS get_filter_config h
                         observation_space a action_space view_requirements)) = length h + 1"
proof -
  obtain d where "fst (get_encoder_config MODEL_DEFAULTS get_filter_config h observation_space
                         a action_space view_requirements) = h @ [d]"
    using store_extended by blast
  then show ?thesis using assms by (simp add: nth_append)
qed

theorem caller_dict_unchanged_witness:
  "(0::nat) < length [Map.empty :: dict]
   \<and> fst (get_encoder_config defaults_table filter_heuristic [Map.empty]
            (Box [84, 84, 4] CHR ''f'') 0 None VNone) ! 0 = Map.empty
   \<and> (fst (get_encoder_config defaults_table filter_heuristic [Map.empty]
            (Box [84, 84, 4] CHR ''f'') 0 None VNone) ! 1) ''conv_filters'' = Some filters_84x84"
proof -
  have valid: "(0::nat) < length [Map.empty :: dict]" by simp
  have kept: "fst (get_encoder_config defaults_table filter_heuristic [Map.empty]
            (Box [84, 84, 4] CHR ''f'') 0 None VNone) ! 0 = Map.empty"
    using caller_dict_unchanged[OF valid, of defaults_table filter_heuristic
        "Box [84, 84, 4] CHR ''f''" None VNone] by simp
  have written: "(fst (get_encoder_config defaults_table filter_heuristic [Map.empty]
            (Box [84, 84, 4] CHR ''f'') 0 None VNone) ! 1) ''conv_filters'' = Some filters_84x84"
    by (simp add: get_encoder_config_def flag_branch_def space_branch_def cnn_branch_def
          derive_conv_filters_def setitem_def dict_get_def new_dict_def getitem_def
          defaults_table_def filter_heuristic_def Let_def)
  show ?thesis using valid kept written by simp
qed

lemma merge_twice: "D ++ (D ++ c) = D ++ c"
  by (rule ext) (simp add: map_add_def split: option.splits)

text \<open>
  C10. Merging the defaults into the configuration before calling the resolver changes
  nothing: when the dict at \<open>b\<close> is the merge of the defaults with the dict at \<open>a\<close>, the
  resolver returns the same result, and the same store, for either reference. In
  particular the Catalog constructor, whose store holds the merged copy right after the
  caller's dicts, would get the same encoder configuration from its stored merged dict as
  it gets from the raw dict it passes.
\<close>

theorem premerge_is_noop:
  assumes "h ! b = MODEL_DEFAULTS ++ (h ! a)"
  shows "get_encoder_config MODEL_DEFAULTS get_filter_config h observation_space a
           action_space view_requirements =
         get_encoder_config MODEL_DEFAULTS get_filter_config h observation_space b
           action_space view_requirements"
proof -
  have merged: "MODEL_DEFAULTS ++ (h ! b) = MODEL_DEFAULTS ++ (h ! a)"
    unfolding assms by (rule merge_twice)
  show ?thesis
    unfolding get_encoder_config_def merged by (rule refl)
qed

theorem premerge_is_noop_witness:
  "snd (new_dict [[''fcnet_hiddens'' \<mapsto> VList [VInt 64, VInt 32]]]
          (defaults_table ++ [''fcnet_hiddens'' \<mapsto> VList [VInt 64, VInt 32]])) = 1
   \<and> get_encoder_config defaults_table filter_heuristic
        (fst (new_dict [[''fcnet_hiddens'' \<mapsto> VList [VInt 64, VInt 32]]]
                (defaults_table ++ [''fcnet_hiddens'' \<mapsto> VList [VInt 64, VInt 32]])))
        (Box [8] CHR ''f'') 0 None VNone =
      get_encoder_config defaults_table filter_heuristic
        (fst (new_dict [[''fcnet_hiddens'' \<mapsto> VList [VInt 64, VInt 32]]]
                (defaults_table ++ [''fcnet_hiddens'' \<mapsto> VList [VInt 64, VInt 32]])))
        (Box [8] CHR ''f'') 1 None VNone
   \<and> snd (get_encoder_config defaults_table filter_heuristic
        (fst (new_dict [[''fcnet_hiddens'' \<mapsto> VList [VInt 64, VInt 32]]]
                (defaults_table ++ [''fcnet_hiddens'' \<mapsto> VList [VInt 64, VInt 32]])))
        (Box [8] CHR ''f'') 1 None VNone) =
      Inr (MLPEncoderConfig 8 (VList [VInt 64]) (VStr ''tanh'') (VInt 32) (VStr ''tanh''))"
proof -
  let ?c = "[''fcnet_hiddens'' \<mapsto> VList [VInt 64, VInt 32]]"
  let ?h = "fst (new_dict [?c] (defaults_table ++ ?c))"
  have merged: "?h ! 1 = defaults_table ++ (?h ! 0)"
    by (simp add: new_dict_def)
  have same: "get_encoder_config defaults_table filter_heuristic ?h (Box [8] CHR ''f'') 0 None VNone =
              get_encoder_config defaults_table filter_heuristic ?h (Box [8] CHR ''f'') 1 None VNone"
    by (rule premerge_is_noop[OF merged])
  have raw: "snd (get_encoder_config defaults_table filter_heuristic ?h (Box [8] CHR ''f'') 0
                    None VNone) =
      Inr (MLPEncoderConfig 8 (VList [VInt 64]) (VStr ''tanh'') (VInt 32) (VStr ''tanh''))"
    by (simp add: get_encoder_config_def flag_branch_def space_branch_def mlp_branch_def
          new_dict_def getitem_def defaults_table_def Let_def)
  show ?thesis using same raw by (simp add: new_dict_def)
qed

section \<open>The CNN path\<close>

lemma Catalog_init_keeps_merge:
  assumes "a < length h"
  shows "fst (Catalog_init D gfc h obs action a vr) ! a = h ! a
       \<and> fst (Catalog_init D gfc h obs action a vr) ! length h = D ++ (h ! a)"
proof -
  obtain d where "fst (get_encoder_config D gfc (h @ [D ++ (h ! a)]) obs a (Some action) vr) =
                    (h @ [D ++ (h ! a)]) @ [d]"
    using store_extended by blast
  then show ?thesis using assms by (simp add: Catalog_init_store nth_append)
qed

text \<open>
  C2, as the code has it. For a 3-D Box observation space, with use_lstm and
  use_attention false and no conv_filters in the merged configuration, the resolver
  returns a CNN configuration whose filter specifiers are what get_filter_config gives
  for the shape. The derived filters are written to the resolver's own merged copy, the
  one dict the call adds to the store, and to no dict that existed before the call: a
  Catalog's stored model_config_dict is the plain merge of the defaults with the caller's
  dict, and the caller's dict is as it was.
\<close>

theorem cnn_filters_derived_locally:
  assumes "(MODEL_DEFAULTS ++ (h ! a)) ''fcnet_activation'' = Some act"
    and "(MODEL_DEFAULTS ++ (h ! a)) ''fcnet_hiddens'' = Some hiddens"
    and "(MODEL_DEFAULTS ++ (h ! a)) ''encoder_latent_dim'' = Some latent"
    and "(if truthy latent then Inr latent else last_item hiddens) = Inr width"
    and "(MODEL_DEFAULTS ++ (h ! a)) ''use_lstm'' = Some ul" and "\<not> truthy ul"
    and "(MODEL_DEFAULTS ++ (h ! a)) ''use_attention'' = Some ua" and "\<not> truthy ua"
    and "length shape = 3"
    and "\<not> truthy (dict_get (MODEL_DEFAULTS ++ (h ! a)) ''conv_filters'')"
    and "get_filter_config shape = Inr filters"
    and "a < length h"
  shows "get_encoder_config MODEL_DEFAULTS get_filter_config h (Box shape c) a
           action_space view_requirements =
           (h @ [(MODEL_DEFAULTS ++ (h ! a))(''conv_filters'' \<mapsto> filters)],
            Inr (CNNEncoderConfig shape filters act act width))
       \<and> fst (Catalog_init MODEL_DEFAULTS get_filter_config h (Box shape c) action a
                view_requirements) ! length h = MODEL_DEFAULTS ++ (h ! a)
       \<and> fst (Catalog_init MODEL_DEFAULTS get_filter_config h (Box shape c) action a
                view_requirements) ! a = h ! a"
proof -
  let ?H = "h @ [MODEL_DEFAULTS ++ (h ! a)]"
  have "get_encoder_config MODEL_DEFAULTS get_filter_config h (Box shape c) a
          action_space view_requirements =
        flag_branch get_filter_config ?H (length h) act act width (Box shape c)
          action_space view_requirements"
    by (rule resolver_reads[OF assms(1) assms(2) assms(3) assms(4)])
  also have "\<dots> = space_branch get_filter_config ?H (length h) act act width (Box shape c)"
    by (rule flag_branch_plain[where ul = ul and ua = ua]) (simp_all add: assms)
  also have "\<dots> = cnn_branch get_filter_config ?H (length h) act act width shape"
    by (rule space_branch_cnn[OF assms(9)])
  also have "\<dots> = (?H[length h := (?H ! length h)(''conv_filters'' \<mapsto> filters)],
                    Inr (CNNEncoderConfig shape filters act act width))"
    by (rule cnn_branch_derived) (simp_all add: assms)
  finally have "get_encoder_config MODEL_DEFAULTS get_filter_config h (Box shape c) a
           action_space view_requirements =
           (h @ [(MODEL_DEFAULTS ++ (h ! a))(''conv_filters'' \<mapsto> filters)],
            Inr (CNNEncoderConfig shape filters act act width))"
    by simp
  then show ?thesis
    using Catalog_init_keeps_merge[OF assms(12)] by simp
qed

theorem cnn_filters_derived_locally_witness:
  "snd (get_encoder_config defaults_table filter_heuristic [Map.empty]
          (Box [84, 84, 4] CHR ''f'') 0 None VNone) =
     Inr (CNNEncoderConfig [84, 84, 4] filters_84x84 (VStr ''tanh'') (VStr ''tanh'') (VInt 256))
   \<and> filter_heuristic [84, 84, 4] = Inr filters_84x84
   \<and> (fst (get_encoder_config defaults_table filter_heuristic [Map.empty]
          (Box [84, 84, 4] CHR ''f'') 0 None VNone) ! 1) ''conv_filters'' = Some filters_84x84
   \<and> (fst (Catalog_init defaults_table filter_heuristic [Map.empty]
          (Box [84, 84, 4] CHR ''f'') (Discrete 6) 0 VNone) ! 1) ''conv_filters'' = Some VNone"
proof -
  have heuristic: "filter_heuristic [84, 84, 4] = Inr filters_84x84"
    by (simp add: filter_heuristic_def)
  have width: "(if truthy VNone then Inr VNone else last_item (VList [VInt 256, VInt 256])) =
                 Inr (VInt 256)"
    by simp
  have valid: "(0::nat) < length [Map.empty :: dict]" by simp
  note inst = cnn_filters_derived_locally[where MODEL_DEFAULTS = defaults_table
      and h = "[Map.empty]" and a = 0 and act = "VStr ''tanh''"
      and hiddens = "VList [VInt 256, VInt 256]" and latent = VNone and width = "VInt 256"
      and ul = "VBool False" and ua = "VBool False" and shape = "[84, 84, 4]"
      and get_filter_config = filter_heuristic and filters = filters_84x84
      and c = "CHR ''f''" and action_space = None and view_requirements = VNone
      and action = "Discrete 6"]
  have "get_encoder_config defaults_table filter_heuristic [Map.empty]
          (Box [84, 84, 4] CHR ''f'') 0 None VNone =
          ([Map.empty] @ [(defaults_table ++ ([Map.empty] ! 0))(''conv_filters'' \<mapsto> filters_84x84)],
           Inr (CNNEncoderConfig [84, 84, 4] filters_84x84 (VStr ''tanh'') (VStr ''tanh'')
                  (VInt 256)))
       \<and> fst (Catalog_init defaults_table filter_heuristic [Map.empty]
                (Box [84, 84, 4] CHR ''f'') (Discrete 6) 0 VNone) ! length [Map.empty :: dict] =
           defaults_table ++ ([Map.empty] ! 0)
       \<and> fst (Catalog_init defaults_table filter_heuristic [Map.empty]
                (Box [84, 84, 4] CHR ''f'') (Discrete 6) 0 VNone) ! 0 = [Map.empty] ! 0"
    by (rule inst) (simp_all add: defaults_table_def dict_get_def heuristic)
  then show ?thesis using heuristic by (simp add: defaults_table_def)
qed

text \<open>
  The claim C2 as stated fails: after constructing a Catalog for the shape (84, 84, 4)
  with an empty configuration, its encoder configuration carries the derived filters,
  but its stored model_config_dict (reference 1) still has conv_filters None, and the
  caller's dict (reference 0) has no such key.
\<close>

theorem cnn_filters_not_in_stored_config:
  "snd (Catalog_init defaults_table filter_heuristic [Map.empty]
          (Box [84, 84, 4] CHR ''f'') (Discrete 6) 0 VNone) =
     Inr \<lparr>self_observation_space = Some (Box [84, 84, 4] CHR ''f''),
          self_action_space = Some (Discrete 6),
          self_model_config_dict = Some 1,
          self_view_requirements = Some VNone,
          self_encoder_config =
            Some (CNNEncoderConfig [84, 84, 4] filters_84x84 (VStr ''tanh'') (VStr ''tanh'')
                    (VInt 256)),
          self_action_dist_cls_dict =
            Some [''torch'' \<mapsto> TorchCategorical, ''tf'' \<mapsto> TfCategorical],
          self_latent_dim = Some (VInt 256)\<rparr>
   \<and> filter_heuristic [84, 84, 4] = Inr filters_84x84
   \<and> (fst (Catalog_init defaults_table filter_heuristic [Map.empty]
          (Box [84, 84, 4] CHR ''f'') (Discrete 6) 0 VNone) ! 1) ''conv_filters'' = Some VNone
   \<and> (fst (Catalog_init defaults_table filter_heuristic [Map.empty]
          (Box [84, 84, 4] CHR ''f'') (Discrete 6) 0 VNone) ! 0) ''conv_filters'' = None
   \<and> Some VNone \<noteq> Some filters_84x84"
  by (simp add: Catalog_init_def get_encoder_config_def flag_branch_def space_branch_def
        cnn_branch_def derive_conv_filters_def setitem_def dict_get_def new_dict_def
        new_object_def getitem_def defaults_table_def filter_heuristic_def filters_84x84_def
        distribution_dicts_def Let_def)

section \<open>Rejected inputs\<close>

lemma dist_dict_succeeds_iff:
  "(\<exists>m. get_action_dist_cls_dict space flag = Inr m) \<longleftrightarrow>
     (\<exists>shape c. space = Box shape c \<and> c \<notin> set AllInteger \<and> length shape \<le> 1)
     \<or> (\<exists>n. space = Discrete n)"
  by (cases space)
     (auto simp add: distribution_dicts_gaussian distribution_dicts_deterministic
        distribution_dicts_categorical)

text \<open>
  C4, as the code has it. The action-distribution resolver raises ValueError for an
  integer-typed Box, UnsupportedSpaceException for a float Box with more than one shape
  dimension, and NotImplementedError for Tuple, Dict, Simplex, MultiDiscrete and
  unrecognised spaces; it succeeds for exactly the remaining spaces (a float Box with at
  most one dimension, a Discrete space). The encoder resolver, on a configuration whose
  keys are present, whose latent-width expression evaluates and whose use_lstm is false,
  raises the bare NotImplementedError when use_attention is true, and raises
  NotImplementedError for every observation space that is not a 1-D or 3-D Box.
\<close>

theorem rejected_inputs:
  assumes "(MODEL_DEFAULTS ++ (h ! a)) ''fcnet_activation'' = Some act"
    and "(MODEL_DEFAULTS ++ (h ! a)) ''fcnet_hiddens'' = Some hiddens"
    and "(MODEL_DEFAULTS ++ (h ! a)) ''encoder_latent_dim'' = Some latent"
    and "truthy latent \<or> (\<exists>hs. hiddens = VList hs \<and> hs \<noteq> [])"
    and "(MODEL_DEFAULTS ++ (h ! a)) ''use_lstm'' = Some ul" and "\<not> truthy ul"
    and "(MODEL_DEFAULTS ++ (h ! a)) ''use_attention'' = Some ua"
  shows "(c \<in> set AllInteger \<longrightarrow>
            get_action_dist_cls_dict (Box shape c) deterministic =
              Inl (ValueError
                ''Box(..., `int`) action spaces are not supported. Use MultiDiscrete  or Box(..., `float`).''))
       \<and> (c \<notin> set AllInteger \<and> 1 < length shape \<longrightarrow>
            get_action_dist_cls_dict (Box shape c) deterministic =
              Inl (UnsupportedSpaceException shape))
       \<and> (\<exists>msg. get_action_dist_cls_dict (Tuple children) deterministic =
              Inl (NotImplementedError msg))
       \<and> (\<exists>msg. get_action_dist_cls_dict (Dict members) deterministic =
              Inl (NotImplementedError msg))
       \<and> (\<exists>msg. get_action_dist_cls_dict (Simplex sshape) deterministic =
              Inl (NotImplementedError msg))
       \<and> (\<exists>msg. get_action_dist_cls_dict (MultiDiscrete nvec) deterministic =
              Inl (NotImplementedError msg))
       \<and> (\<exists>msg. get_action_dist_cls_dict (OtherSpace r) deterministic =
              Inl (NotImplementedError msg))
       \<and> ((\<exists>m. get_action_dist_cls_dict space deterministic = Inr m) \<longleftrightarrow>
            (\<exists>shape c. space = Box shape c \<and> c \<notin> set AllInteger \<and> length shape \<le> 1)
            \<or> (\<exists>n. space = Discrete n))
       \<and> (truthy ua \<longrightarrow>
            snd (get_encoder_config MODEL_DEFAULTS get_filter_config h observation_space a
                   action_space view_requirements) = Inl (NotImplementedError None))
       \<and> ((\<forall>oshape oc. observation_space = Box oshape oc
               \<longrightarrow> length oshape \<noteq> 1 \<and> length oshape \<noteq> 3) \<longrightarrow>
            (\<exists>msg. snd (get_encoder_config MODEL_DEFAULTS get_filter_config h
                           observation_space a action_space view_requirements) =
                      Inl (NotImplementedError msg)))"
proof -
  let ?H = "h @ [MODEL_DEFAULTS ++ (h ! a)]"
  have "\<exists>width. (if truthy latent then Inr latent else last_item hiddens) = Inr width"
    using assms(4) by (cases "truthy latent") auto
  then obtain width where
    width: "(if truthy latent then Inr latent else last_item hiddens) = Inr width" ..
  have reads: "get_encoder_config MODEL_DEFAULTS get_filter_config h observation_space a
          action_space view_requirements =
        flag_branch get_filter_config ?H (length h) act act width observation_space
          action_space view_requirements"
    by (rule resolver_reads[OF assms(1) assms(2) assms(3) width])
  have attention: "truthy ua \<Longrightarrow>
      snd (get_encoder_config MODEL_DEFAULTS get_filter_config h observation_space a
             action_space view_requirements) = Inl (NotImplementedError None)"
  proof -
    assume "truthy ua"
    then have "flag_branch get_filter_config ?H (length h) act act width observation_space
                 action_space view_requirements = (?H, Inl (NotImplementedError None))"
      by (intro flag_branch_attention[where ul = ul and ua = ua]) (simp_all add: assms)
    then show ?thesis using reads by simp
  qed
  have complex: "\<exists>msg. snd (get_encoder_config MODEL_DEFAULTS get_filter_config h
                           observation_space a action_space view_requirements) =
                      Inl (NotImplementedError msg)"
    if other: "\<forall>oshape oc. observation_space = Box oshape oc
                 \<longrightarrow> length oshape \<noteq> 1 \<and> length oshape \<noteq> 3"
  proof (cases "truthy ua")
    case True
    then show ?thesis using attention by blast
  next
    case False
    have "flag_branch get_filter_config ?H (length h) act act width observation_space
            action_space view_requirements =
          space_branch get_filter_config ?H (length h) act act width observation_space"
      by (rule flag_branch_plain[where ul = ul and ua = ua]) (simp_all add: assms False)
    then show ?thesis using reads space_branch_complex[OF other] by simp
  qed
  show ?thesis
    using attention complex dist_dict_succeeds_iff[of space deterministic]
    by simp
qed

text \<open>
  The claim C4 as stated fails for the observation-space clause: with use_lstm true, a
  nested (Dict) observation space is not rejected; the resolver returns an LSTM
  configuration and never looks at the space.
\<close>

theorem nested_observation_with_lstm:
  "snd (get_encoder_config defaults_table filter_heuristic [[''use_lstm'' \<mapsto> VBool True]]
          (Dict [(''obs'', Box [4] CHR ''f'')]) 0 None VNone) =
     Inr (LSTMEncoderConfig (VInt 256) True 1 (VInt 256) (VStr ''tanh'')
            (Dict [(''obs'', Box [4] CHR ''f'')]) None VNone Catalog_get_tokenizer_config)"
  by (simp add: get_encoder_config_def flag_branch_def lstm_branch_def new_dict_def
        getitem_def defaults_table_def Let_def)

theorem rejected_inputs_witness:
  "get_action_dist_cls_dict (Box [4] CHR ''i'') (Some False) =
     Inl (ValueError
       ''Box(..., `int`) action spaces are not supported. Use MultiDiscrete  or Box(..., `float`).'')
   \<and> get_action_dist_cls_dict (Box [4, 2] CHR ''f'') (Some False) =
     Inl (UnsupportedSpaceException [4, 2])
   \<and> snd (get_encoder_config defaults_table filter_heuristic [Map.empty]
          (Dict [(''obs'', Box [4] CHR ''f'')]) 0 None VNone) =
     Inl (NotImplementedError (Some ''No default config for complex spaces yet!''))
   \<and> snd (get_encoder_config defaults_table filter_heuristic
          [[''use_attention'' \<mapsto> VBool True]] (Box [8] CHR ''f'') 0 None VNone) =
     Inl (NotImplementedError None)"
proof -
  have integer: "CHR ''i'' \<in> set AllInteger" and float: "CHR ''f'' \<notin> set AllInteger"
    by (simp_all add: AllInteger_def)
  note plain = rejected_inputs[where MODEL_DEFAULTS = defaults_table and h = "[Map.empty]"
      and a = 0 and act = "VStr ''tanh''" and hiddens = "VList [VInt 256, VInt 256]"
      and latent = VNone and ul = "VBool False" and ua = "VBool False"
      and c = "CHR ''i''" and shape = "[4]" and deterministic = "Some False"
      and observation_space = "Dict [(''obs'', Box [4] CHR ''f'')]"
      and get_filter_config = filter_heuristic and action_space = None
      and view_requirements = VNone]
  note attn = rejected_inputs[where MODEL_DEFAULTS = defaults_table
      and h = "[[''use_attention'' \<mapsto> VBool True]]"
      and a = 0 and act = "VStr ''tanh''" and hiddens = "VList [VInt 256, VInt 256]"
      and latent = VNone and ul = "VBool False" and ua = "VBool True"
      and c = "CHR ''f''" and shape = "[4, 2]" and deterministic = "Some False"
      and observation_space = "Box [8] CHR ''f''"
      and get_filter_config = filter_heuristic and action_space = None
      and view_requirements = VNone]
  have a1: "get_action_dist_cls_dict (Box [4] CHR ''i'') (Some False) =
     Inl (ValueError
       ''Box(..., `int`) action spaces are not supported. Use MultiDiscrete  or Box(..., `float`).'')"
    using plain integer by (simp add: defaults_table_def)
  have a2: "get_action_dist_cls_dict (Box [4, 2] CHR ''f'') (Some False) =
     Inl (UnsupportedSpaceException [4, 2])"
    using attn float by (simp add: defaults_table_def)
  have e1: "\<exists>msg. snd (get_encoder_config defaults_table filter_heuristic [Map.empty]
          (Dict [(''obs'', Box [4] CHR ''f'')]) 0 None VNone) = Inl (NotImplementedError msg)"
    using plain by (simp add: defaults_table_def)
  have e1': "snd (get_encoder_config defaults_table filter_heuristic [Map.empty]
          (Dict [(''obs'', Box [4] CHR ''f'')]) 0 None VNone) =
     Inl (NotImplementedError (Some ''No default config for complex spaces yet!''))"
    by (simp add: get_encoder_config_def flag_branch_def space_branch_def new_dict_def
          getitem_def defaults_table_def Let_def)
  have e2: "snd (get_encoder_config defaults_table filter_heuristic
          [[''use_attention'' \<mapsto> VBool True]] (Box [8] CHR ''f'') 0 None VNone) =
     Inl (NotImplementedError None)"
    using attn by (simp add: defaults_table_def)
  show ?thesis using a1 a2 e1 e1' e2 by simp
qed

end
